theory Spec2Isabelle
  imports Complex_Main
begin

section \<open>Data model\<close>

text \<open>
  The module \<^verbatim>\<open>utils/data_transforms.py\<close> pairs every image with a target: an
  \<open>N \<times> 2\<close> numpy array whose row \<open>i\<close> is the keypoint \<open>(x, y)\<close>. The arrays
  are float arrays (ToTensor divides them in place) of numpy's default float type,
  binary64. A coordinate is modelled by the rational number it holds, and the result of
  an addition, subtraction, multiplication or division of the code is rounded to binary64
  by \<open>f64\<close>, defined below. Every transform mutates the target in place and returns it;
  the model returns the new list.
\<close>

type_synonym keypoint = "rat \<times> rat"

type_synonym target = "keypoint list"

text \<open>
  The exceptions the module can raise, as values. \<open>Unmodelled\<close> marks the inputs this
  development leaves out: pixel storage that is bit-packed or float, arrays that PIL would
  read with a band count they do not have, and divisions whose result is infinite or not
  a number (numpy and torch raise nothing there).
\<close>

datatype error =
  ValueError | ZeroDivisionError | AssertionError | AttributeError | Unmodelled

text \<open>
  A PIL image: \<^verbatim>\<open>img.size\<close> is \<open>(width, height)\<close>, \<^verbatim>\<open>img.mode\<close> the mode string, and
  \<open>pixel img x y c\<close> the value of band \<open>c\<close> at column \<open>x\<close>, row \<open>y\<close>. PIL holds
  width and height in C ints, so both are exact as binary64 numbers.
\<close>

record image =
  width :: int
  height :: int
  mode :: string
  pixel :: "int \<Rightarrow> int \<Rightarrow> int \<Rightarrow> int"

text \<open>Python's \<^verbatim>\<open>int(x)\<close> on a float truncates toward zero.\<close>

definition py_int :: "rat \<Rightarrow> int" where
  "py_int q = (if 0 \<le> q then \<lfloor>q\<rfloor> else \<lceil>q\<rceil>)"

subsection \<open>Floating-point rounding\<close>

text \<open>
  \<open>fl p q\<close> is the binary floating-point number with a significand of \<open>p\<close> bits
  nearest to \<open>q\<close>, ties to the even significand: \<open>binade n a\<close> is the power of two
  with \<open>binade n a \<le> a < 2 * binade n a\<close> (found in at most \<open>n\<close> steps; 1100 steps
  reach every exponent of binary32 and binary64), and one unit in the last place is
  \<open>binade n a / 2 ^ (p - 1)\<close>. \<open>f32\<close> rounds to binary32 and \<open>f64\<close> to binary64.
  Overflow and subnormal numbers are not modelled.
\<close>

primrec binade :: "nat \<Rightarrow> rat \<Rightarrow> rat" where
  "binade 0 a = 1"
| "binade (Suc n) a =
     (if a < 1 then binade n (2 * a) / 2
      else if 2 \<le> a then binade n (a / 2) * 2
      else 1)"

definition round_half_even :: "rat \<Rightarrow> int" where
  "round_half_even r =
     (let f = \<lfloor>r\<rfloor>; d = r - of_int f
      in if d < 1 / 2 then f
         else if 1 / 2 < d then f + 1
         else if even f then f else f + 1)"

definition fl :: "nat \<Rightarrow> rat \<Rightarrow> rat" where
  "fl p q =
     (if q = 0 then 0
      else
        let a = \<bar>q\<bar>;
            ulp = binade 1100 a / 2 ^ (p - 1)
        in sgn q * of_int (round_half_even (a / ulp)) * ulp)"

definition f32 :: "rat \<Rightarrow> rat" where
  "f32 q = fl 24 q"

definition f64 :: "rat \<Rightarrow> rat" where
  "f64 q = fl 53 q"

subsection \<open>Column updates of the target array\<close>

text \<open>\<^verbatim>\<open>target[:, 0] = f(target[:, 0])\<close> and \<^verbatim>\<open>target[:, 1] = f(target[:, 1])\<close>.\<close>

definition upd_x :: "(rat \<Rightarrow> rat) \<Rightarrow> target \<Rightarrow> target" where
  "upd_x f t = map (\<lambda>(x, y). (f x, y)) t"

definition upd_y :: "(rat \<Rightarrow> rat) \<Rightarrow> target \<Rightarrow> target" where
  "upd_y f t = map (\<lambda>(x, y). (x, f y)) t"

text \<open>\<^verbatim>\<open>target[target < 0] = 0\<close>.\<close>

definition clamp_negative :: "target \<Rightarrow> target" where
  "clamp_negative t =
     map (\<lambda>(x, y). (if x < 0 then 0 else x, if y < 0 then 0 else y)) t"

subsection \<open>The image operations the transforms call\<close>

text \<open>
  The operations of PIL are not part of the repository. \<^verbatim>\<open>img.resize((ow, oh), filter)\<close>
  raises ValueError unless the requested width and height are both positive, and
  otherwise returns an image of the requested size; its content is whatever the
  resampling filter computes, so the filter is a parameter: \<open>filt img ow oh\<close> is the
  pixel function of the resized image.
\<close>

type_synonym resampler = "image \<Rightarrow> int \<Rightarrow> int \<Rightarrow> (int \<Rightarrow> int \<Rightarrow> int \<Rightarrow> int)"

definition resize :: "image \<Rightarrow> int \<times> int \<Rightarrow> resampler \<Rightarrow> error + image" where
  "resize img sz filt =
     (if fst sz \<le> 0 \<or> snd sz \<le> 0 then Inl ValueError
      else Inr \<lparr>width = fst sz, height = snd sz, mode = mode img,
                pixel = filt img (fst sz) (snd sz)\<rparr>)"

text \<open>
  Nearest-neighbour resampling, used for the concrete examples: the pixel \<open>(x, y)\<close> of
  the result shows the source pixel under its centre, at column
  \<open>\<lfloor>(x + 1/2) * width / ow\<rfloor>\<close> and row \<open>\<lfloor>(y + 1/2) * height / oh\<rfloor>\<close>.
\<close>

definition nearest :: resampler where
  "nearest img ow oh =
     (\<lambda>x y c. if 0 \<le> x \<and> x < ow \<and> 0 \<le> y \<and> y < oh
              then pixel img ((2 * x + 1) * width img div (2 * ow))
                             ((2 * y + 1) * height img div (2 * oh)) c
              else 0)"

text \<open>An image whose pixels identify their own position, for the concrete examples.\<close>

definition sample_image :: "int \<Rightarrow> int \<Rightarrow> image" where
  "sample_image w h =
     \<lparr>width = w, height = h, mode = ''L'',
      pixel = (\<lambda>x y c. if 0 \<le> x \<and> x < w \<and> 0 \<le> y \<and> y < h \<and> c = 0
                       then (x + w * y) mod 256 else 0)\<rparr>"

section \<open>Scale\<close>

text \<open>
  \<^verbatim>\<open>Scale(size, interpolation)\<close>: the constructor asserts that \<open>size\<close> is an int or
  an iterable of length two, and stores both arguments.
\<close>

datatype scale_size = SizeInt int | SizePair int int

record Scale =
  Scale_size :: scale_size
  Scale_interpolation :: resampler

text \<open>
  \<^verbatim>\<open>Scale.__call__\<close>. With a single int the shorter edge becomes \<open>size\<close>, the other
  edge \<^verbatim>\<open>int(size * h / w)\<close> (true division of two ints, which raises on a zero divisor
  and rounds the quotient to binary64), and the target columns are multiplied by \<open>ow\<close>
  and \<open>oh\<close>, which enter the product as binary64 numbers; when the image is higher than
  wide the image is resized before the target is touched, otherwise after. With
  a pair the image is resized first, and the target columns are then multiplied by the
  binary64 quotients \<^verbatim>\<open>size[0] / w\<close> and \<^verbatim>\<open>size[1] / h\<close>.
\<close>

definition Scale_call :: "Scale \<Rightarrow> image \<Rightarrow> target \<Rightarrow> error + (image \<times> target)" where
  "Scale_call self img target =
     (case Scale_size self of
        SizeInt s \<Rightarrow>
          (let w = width img; h = height img in
           if (w \<le> h \<and> w = s) \<or> (h \<le> w \<and> h = s) then Inr (img, target)
           else if w < h then
             (if w = 0 then Inl ZeroDivisionError
              else
                let ow = s;
                    oh = py_int (f64 (of_int (s * h) / of_int w))
                in case resize img (ow, oh) (Scale_interpolation self) of
                     Inl e \<Rightarrow> Inl e
                   | Inr img' \<Rightarrow>
                       Inr (img', upd_y (\<lambda>y. f64 (y * f64 (of_int oh)))
                                    (upd_x (\<lambda>x. f64 (x * f64 (of_int ow))) target)))
           else
             (if h = 0 then Inl ZeroDivisionError
              else
                let oh = s;
                    ow = py_int (f64 (of_int (s * w) / of_int h));
                    target' = upd_y (\<lambda>y. f64 (y * f64 (of_int oh)))
                                (upd_x (\<lambda>x. f64 (x * f64 (of_int ow))) target)
                in case resize img (ow, oh) (Scale_interpolation self) of
                     Inl e \<Rightarrow> Inl e
                   | Inr img' \<Rightarrow> Inr (img', target')))
      | SizePair sw sh \<Rightarrow>
          (let w = width img; h = height img in
           case resize img (sw, sh) (Scale_interpolation self) of
             Inl e \<Rightarrow> Inl e
           | Inr img' \<Rightarrow>
               if w = 0 \<or> h = 0 then Inl ZeroDivisionError
               else Inr (img', upd_y (\<lambda>y. f64 (y * f64 (of_int sh / of_int h)))
                                (upd_x (\<lambda>x. f64 (x * f64 (of_int sw / of_int w))) target))))"

section \<open>CropToTarget\<close>

text \<open>
  \<^verbatim>\<open>img.crop(box)\<close> of PIL rounds the four box coordinates to integers, moves a right or
  lower edge that lies before the left or upper one onto it, and returns the window; what
  the window shows beyond the source image is zero. The rounding is applied by the caller
  below, since Python's \<^verbatim>\<open>round\<close> differs between versions on ties.
\<close>

definition crop :: "image \<Rightarrow> int \<times> int \<times> int \<times> int \<Rightarrow> image" where
  "crop img box =
     (case box of (x0, y0, x1, y1) \<Rightarrow>
        let x1' = (if x1 < x0 then x0 else x1);
            y1' = (if y1 < y0 then y0 else y1)
        in \<lparr>width = x1' - x0, height = y1' - y0, mode = mode img,
            pixel = (\<lambda>x y c.
              if 0 \<le> x \<and> x < x1' - x0 \<and> 0 \<le> y \<and> y < y1' - y0
                 \<and> 0 \<le> x + x0 \<and> x + x0 < width img \<and> 0 \<le> y + y0 \<and> y + y0 < height img
              then pixel img (x + x0) (y + y0) c else 0)\<rparr>)"

text \<open>\<^verbatim>\<open>np.max(target, axis=0)\<close> and \<^verbatim>\<open>np.min(target, axis=0)\<close> of a non-empty target.\<close>

definition np_max :: "target \<Rightarrow> keypoint" where
  "np_max t = (Max (fst ` set t), Max (snd ` set t))"

definition np_min :: "target \<Rightarrow> keypoint" where
  "np_min t = (Min (fst ` set t), Min (snd ` set t))"

record CropToTarget =
  CropToTarget_padding :: int

text \<open>
  Lines 38 to 48 of \<^verbatim>\<open>CropToTarget.__call__\<close>: the bounding box of the target,
  \<open>(min_coords, max_coords)\<close>, after the padding step. The padding is an int, which
  enters each sum as a binary64 number; the four sums the test compares are the rounded
  ones, and so are the sums that \<^verbatim>\<open>min_coords -= self.padding\<close> and
  \<^verbatim>\<open>max_coords += self.padding\<close> store.
\<close>

definition padded_box :: "CropToTarget \<Rightarrow> image \<Rightarrow> target \<Rightarrow> keypoint \<times> keypoint" where
  "padded_box self img target =
     (let max_coords = np_max target;
          min_coords = np_min target;
          w = width img; h = height img;
          p = f64 (of_int (CropToTarget_padding self))
      in if \<not> (f64 (fst min_coords - p) < 0 \<or> f64 (snd min_coords - p) < 0 \<or>
                f64 (fst max_coords + p) > of_int w \<or> f64 (snd max_coords + p) > of_int h)
         then ((f64 (fst min_coords - p), f64 (snd min_coords - p)),
               (f64 (fst max_coords + p), f64 (snd max_coords + p)))
         else (min_coords, max_coords))"

text \<open>
  \<^verbatim>\<open>CropToTarget.__call__\<close>. \<^verbatim>\<open>np.max\<close> of an empty array raises ValueError. \<open>rnd\<close>
  is the rounding that \<^verbatim>\<open>img.crop\<close> applies to the box.
\<close>

definition CropToTarget_call ::
  "(rat \<Rightarrow> int) \<Rightarrow> CropToTarget \<Rightarrow> image \<Rightarrow> target \<Rightarrow> error + (image \<times> target)" where
  "CropToTarget_call rnd self img target =
     (if target = [] then Inl ValueError
      else
        case padded_box self img target of (min_coords, max_coords) \<Rightarrow>
          if of_int (width img) = fst max_coords \<and> of_int (height img) = snd max_coords
          then Inr (img, target)
          else
            let img' = crop img (rnd (fst min_coords), rnd (snd min_coords),
                                 rnd (fst max_coords), rnd (snd max_coords));
                t1 = upd_x (\<lambda>x. f64 (x - fst min_coords)) target;
                t2 = upd_y (\<lambda>y. f64 (y - snd min_coords)) t1;
                t3 = clamp_negative t2;
                t4 = upd_x (\<lambda>x. if x > fst max_coords then 0 else x) t3;
                t5 = upd_y (\<lambda>y. if y > snd max_coords then 0 else y) t4
            in Inr (img', t5))"

section \<open>RandomCrop\<close>

text \<open>
  \<^verbatim>\<open>ImageOps.expand(img, border, fill=0)\<close> of PIL returns an image larger by \<open>border\<close>
  on each of the four sides, zero in the border, with the source pasted at
  \<open>(border, border)\<close>.
\<close>

definition expand :: "image \<Rightarrow> int \<Rightarrow> image" where
  "expand img border =
     \<lparr>width = width img + 2 * border, height = height img + 2 * border, mode = mode img,
      pixel = (\<lambda>x y c.
        if border \<le> x \<and> x < border + width img \<and> border \<le> y \<and> y < border + height img
        then pixel img (x - border) (y - border) c else 0)\<rparr>"

text \<open>
  The constructor takes a number or a pair \<open>(th, tw)\<close>; a number \<open>n\<close> becomes
  \<^verbatim>\<open>(int(n), int(n))\<close>.
\<close>

datatype size_arg = Number rat | Pair int int

record RandomCrop =
  RandomCrop_size :: "int \<times> int"
  RandomCrop_padding :: int

definition RandomCrop_init :: "size_arg \<Rightarrow> int \<Rightarrow> RandomCrop" where
  "RandomCrop_init sz padding =
     (case sz of
        Number n \<Rightarrow> \<lparr>RandomCrop_size = (py_int n, py_int n), RandomCrop_padding = padding\<rparr>
      | Pair a b \<Rightarrow> \<lparr>RandomCrop_size = (a, b), RandomCrop_padding = padding\<rparr>)"

text \<open>
  \<^verbatim>\<open>RandomCrop.__call__\<close>. The two values that \<^verbatim>\<open>random.randint\<close> returns are the
  argument \<open>(x1, y1)\<close>; \<^verbatim>\<open>random.randint(0, n)\<close> raises ValueError when \<open>n < 0\<close>. The
  ints that meet the coordinates here, \<open>x1\<close>, \<open>y1\<close>, \<open>x1 + tw\<close> and \<open>y1 + th\<close>, lie
  between 0 and the width or height of the image.
\<close>

definition RandomCrop_call ::
  "RandomCrop \<Rightarrow> int \<times> int \<Rightarrow> image \<Rightarrow> target \<Rightarrow> error + (image \<times> target)" where
  "RandomCrop_call self draws img0 target =
     (let img = (if RandomCrop_padding self > 0 then expand img0 (RandomCrop_padding self)
                 else img0);
          w = width img; h = height img;
          th = fst (RandomCrop_size self); tw = snd (RandomCrop_size self)
      in if w = th \<and> h = th then Inr (img, target)
         else if w - tw < 0 \<or> h - th < 0 then Inl ValueError
         else
           let x1 = fst draws; y1 = snd draws;
               img' = crop img (x1, y1, x1 + tw, y1 + th);
               t1 = upd_x (\<lambda>x. f64 (x - of_int x1)) target;
               t2 = upd_y (\<lambda>y. f64 (y - of_int y1)) t1;
               t3 = clamp_negative t2;
               t4 = upd_x (\<lambda>x. if x > of_int (x1 + tw) then 0 else x) t3;
               t5 = upd_y (\<lambda>y. if y > of_int (y1 + th) then 0 else y) t4
           in Inr (img', t5))"

section \<open>RandomHorizontalFlip\<close>




section \<open>Tensors and arrays\<close>

text \<open>
  The elements of a float tensor are binary32 numbers, and every operation of torch on
  them rounds its result with \<open>f32\<close>. \<^verbatim>\<open>tensor.byte()\<close> converts a float to an
  unsigned byte: the fraction is dropped, and a value outside \<open>0 .. 255\<close> wraps.
\<close>

definition byte_of :: "rat \<Rightarrow> int" where
  "byte_of v = py_int v mod 256"

text \<open>The value that the 16 low bits of an int have when read as a signed number.\<close>

definition int16_of :: "int \<Rightarrow> int" where
  "int16_of v = (v + 32768) mod 65536 - 32768"

datatype dtype = UInt8 | Int16 | Int32 | Float32 | Float64

text \<open>
  A torch tensor of shape \<open>C \<times> H \<times> W\<close>: \<open>t_elem t c y x\<close>. A numpy array of shape
  \<open>H \<times> W \<times> C\<close>: \<open>a_elem a y x c\<close>.
\<close>

record tensor =
  t_dtype :: dtype
  t_shape :: "nat \<times> nat \<times> nat"
  t_elem :: "nat \<Rightarrow> nat \<Rightarrow> nat \<Rightarrow> rat"

record ndarray =
  a_dtype :: dtype
  a_shape :: "nat \<times> nat \<times> nat"
  a_elem :: "nat \<Rightarrow> nat \<Rightarrow> nat \<Rightarrow> rat"

text \<open>What a transform of the tensor stage may be handed.\<close>

datatype pic = PIL image | NdArray ndarray | Tensor tensor

section \<open>Normalize\<close>





section \<open>ToTensor\<close>

text \<open>
  The modes of PIL whose raw buffer holds one byte for each band of a pixel, in band
  order, and the two integer modes that ToTensor reads through numpy. The other modes
  (\<open>1\<close> is bit-packed, \<open>F\<close> holds floats) are left out.
\<close>

definition byte_modes :: "string list" where
  "byte_modes =
     [''L'', ''P'', ''LA'', ''PA'', ''RGB'', ''RGBA'', ''RGBX'', ''CMYK'', ''YCbCr'',
      ''LAB'', ''HSV'']"

text \<open>\<^verbatim>\<open>target[:, 0] /= w; target[:, 1] /= h\<close>.\<close>

definition div_target :: "nat \<Rightarrow> nat \<Rightarrow> target \<Rightarrow> target" where
  "div_target w h t = upd_y (\<lambda>y. f64 (y / of_nat h)) (upd_x (\<lambda>x. f64 (x / of_nat w)) t)"

text \<open>
  \<^verbatim>\<open>ToTensor.__call__\<close>. An ndarray is transposed to \<open>C \<times> H \<times> W\<close>, converted to float
  and divided by 255. A PIL image becomes an int32 tensor (mode \<open>I\<close>), an int16 tensor
  (mode \<open>I;16\<close>, whose pixels PIL holds unsigned, so that those from 32768 on come out
  negative) or a byte tensor, viewed as \<open>H \<times> W \<times> nchannel\<close> and transposed; only the
  byte tensor is converted to float and divided by 255. A torch tensor has no attribute
  \<open>mode\<close>. The division of the target by a zero width or height raises nothing in numpy
  and gives infinite or undefined coordinates.
\<close>

definition ToTensor_call :: "pic \<Rightarrow> target \<Rightarrow> error + (pic \<times> target)" where
  "ToTensor_call pic target =
     (case pic of
        NdArray a \<Rightarrow>
          (case a_shape a of (h, w, n) \<Rightarrow>
             if w = 0 \<or> h = 0 then Inl Unmodelled
             else
               let target' = div_target w h target;
                   img = \<lparr>t_dtype = a_dtype a, t_shape = (n, h, w),
                          t_elem = (\<lambda>c y x. a_elem a y x c)\<rparr>
               in Inr (Tensor \<lparr>t_dtype = Float32, t_shape = t_shape img,
                                t_elem = (\<lambda>c y x. f32 (f32 (t_elem img c y x) / 255))\<rparr>,
                       target'))
      | Tensor t \<Rightarrow> Inl AttributeError
      | PIL p \<Rightarrow>
          if mode p \<notin> set (''I'' # ''I;16'' # byte_modes) then Inl Unmodelled
          else
            let dt = (if mode p = ''I'' then Int32
                      else if mode p = ''I;16'' then Int16
                      else UInt8);
                nchannel = (if mode p = ''YCbCr'' then 3
                            else if mode p = ''I;16'' then 1
                            else length (mode p));
                img = \<lparr>t_dtype = dt,
                       t_shape = (nchannel, nat (height p), nat (width p)),
                       t_elem = (\<lambda>c y x.
                         if dt = Int16 then of_int (int16_of (pixel p (int x) (int y) (int c)))
                         else of_int (pixel p (int x) (int y) (int c)))\<rparr>;
                h = fst (snd (t_shape img));
                w = snd (snd (t_shape img))
            in if w = 0 \<or> h = 0 then Inl Unmodelled
               else
                 let target' = div_target w h target
                 in if t_dtype img = UInt8
                    then Inr (Tensor \<lparr>t_dtype = Float32, t_shape = t_shape img,
                                t_elem = (\<lambda>c y x. f32 (f32 (t_elem img c y x) / 255))\<rparr>,
                              target')
                    else Inr (Tensor img, target'))"

section \<open>ToPILImage\<close>

text \<open>
  \<^verbatim>\<open>Image.fromarray(npimg, mode)\<close> of PIL, for an integer array: mode \<open>F\<close> (float
  pixels) and mode \<open>RGB\<close> on an array that does not have three bands are left out.
  \<open>two_d\<close> says that the array was reduced to \<^verbatim>\<open>npimg[:, :, 0]\<close>. PIL reads the 16 bits
  of a pixel of mode \<open>I;16\<close> as an unsigned number.
\<close>

definition fromarray :: "ndarray \<Rightarrow> bool \<Rightarrow> string \<Rightarrow> error + image" where
  "fromarray npimg two_d m =
     (case a_shape npimg of (h, w, n) \<Rightarrow>
        if m = ''F'' \<or> (m = ''RGB'' \<and> (two_d \<or> n \<noteq> 3)) then Inl Unmodelled
        else Inr \<lparr>width = int w, height = int h, mode = m,
                  pixel = (\<lambda>x y c.
                    if 0 \<le> x \<and> x < int w \<and> 0 \<le> y \<and> y < int h \<and> 0 \<le> c
                       \<and> c < (if two_d then 1 else int n)
                    then (let v = \<lfloor>a_elem npimg (nat y) (nat x) (nat c)\<rfloor>
                          in if m = ''I;16'' then v mod 65536 else v)
                    else 0)\<rparr>)"

text \<open>
  \<^verbatim>\<open>ToPILImage.__call__\<close>. A float tensor is multiplied by 255 and converted to bytes; a
  tensor is transposed to \<open>H \<times> W \<times> C\<close>; anything that is not an array by then fails the
  first assertion. The mode follows from the dtype as the chain of \<^verbatim>\<open>if\<close>s assigns it,
  and a mode that is still \<^verbatim>\<open>None\<close> fails the second assertion. The target is returned
  as it came.
\<close>

definition ToPILImage_call :: "pic \<Rightarrow> target \<Rightarrow> error + (pic \<times> target)" where
  "ToPILImage_call pic0 target =
     (let pic = (case pic0 of
                   Tensor t \<Rightarrow>
                     if t_dtype t = Float32
                     then Tensor \<lparr>t_dtype = UInt8, t_shape = t_shape t,
                            t_elem = (\<lambda>c y x. of_int (byte_of (f32 (t_elem t c y x * 255))))\<rparr>
                     else pic0
                 | _ \<Rightarrow> pic0);
          npimg = (case pic of
                     Tensor t \<Rightarrow>
                       (case t_shape t of (n, h, w) \<Rightarrow>
                          NdArray \<lparr>a_dtype = t_dtype t, a_shape = (h, w, n),
                                   a_elem = (\<lambda>y x c. t_elem t c y x)\<rparr>)
                   | _ \<Rightarrow> pic0)
      in case npimg of
           NdArray a \<Rightarrow>
             (case a_shape a of (h, w, n) \<Rightarrow>
                let d = a_dtype a;
                    m1 = (if n = 1 \<and> d = UInt8 then Some ''L'' else None);
                    m2 = (if n = 1 \<and> d = Int16 then Some ''I;16'' else m1);
                    m3 = (if n = 1 \<and> d = Int32 then Some ''I''
                          else if n = 1 \<and> d = Float32 then Some ''F'' else m2);
                    m4 = (if n \<noteq> 1 \<and> d = UInt8 then Some ''RGB'' else m3)
                in case m4 of
                     None \<Rightarrow> Inl AssertionError
                   | Some m \<Rightarrow>
                       (case fromarray a (n = 1) m of
                          Inl e \<Rightarrow> Inl e
                        | Inr img \<Rightarrow> Inr (PIL img, target)))
         | _ \<Rightarrow> Inl AssertionError)"

section \<open>Compose\<close>

text \<open>
  \<^verbatim>\<open>Compose.__call__\<close>: the transforms run from the left, each on what the one before
  returned; the first exception ends the call.
\<close>

fun Compose_call ::
  "(pic \<Rightarrow> target \<Rightarrow> error + (pic \<times> target)) list \<Rightarrow> pic \<Rightarrow> target \<Rightarrow> error + (pic \<times> target)" where
  "Compose_call [] img target = Inr (img, target)"
| "Compose_call (t # ts) img target =
     (case t img target of
        Inl e \<Rightarrow> Inl e
      | Inr (img', target') \<Rightarrow> Compose_call ts img' target')"

section \<open>The frame of a target\<close>



text \<open>
  Coordinates in whole pixels, of a magnitude of at most \<open>2 ^ 51\<close>: the sums and
  differences that CropToTarget forms of two of them and a padding of that magnitude
  stay below \<open>2 ^ 53\<close>, where binary64 holds every whole number.
\<close>

definition whole :: "rat \<Rightarrow> bool" where
  "whole q = (of_int \<lfloor>q\<rfloor> = q)"

definition pixel_coord :: "rat \<Rightarrow> bool" where
  "pixel_coord q = (whole q \<and> \<bar>q\<bar> \<le> 2 ^ 51)"

definition pixel_target :: "target \<Rightarrow> bool" where
  "pixel_target t = list_all (\<lambda>(x, y). pixel_coord x \<and> pixel_coord y) t"

section \<open>Properties of the rounding\<close>

lemma binade_ge1:
  "1 \<le> a \<Longrightarrow> a < 2 ^ n \<Longrightarrow> \<exists>k<n. binade n a = 2 ^ k \<and> 2 ^ k \<le> a \<and> a < 2 * 2 ^ k"
proof (induction n arbitrary: a)
  case 0
  then show ?case by simp
next
  case (Suc n)
  show ?case
  proof (cases "2 \<le> a")
    case False
    then have "binade (Suc n) a = 2 ^ 0 \<and> 2 ^ 0 \<le> a \<and> a < 2 * 2 ^ 0"
      using Suc.prems by simp
    then show ?thesis by blast
  next
    case True
    then have "1 \<le> a / 2" "a / 2 < 2 ^ n"
      using Suc.prems by simp_all
    from Suc.IH[OF this] obtain k where k: "k < n" "binade n (a / 2) = 2 ^ k"
      "2 ^ k \<le> a / 2" "a / 2 < 2 * 2 ^ k" by blast
    have "binade (Suc n) a = 2 ^ Suc k \<and> 2 ^ Suc k \<le> a \<and> a < 2 * 2 ^ Suc k"
      using True k by simp
    then show ?thesis using k(1) by (metis Suc_less_eq)
  qed
qed

lemma round_half_even_of_int: "round_half_even (of_int z) = z"
  by (simp add: round_half_even_def)

lemma whole_ge1:
  assumes "whole q" "q \<noteq> 0"
  shows "1 \<le> \<bar>q\<bar>"
proof -
  from assms(1) have q: "q = of_int \<lfloor>q\<rfloor>" unfolding whole_def by (rule sym)
  with assms(2) have "\<lfloor>q\<rfloor> \<noteq> 0" by auto
  then have "1 \<le> \<bar>\<lfloor>q\<rfloor>\<bar>" by simp
  then have "(1::rat) \<le> of_int \<bar>\<lfloor>q\<rfloor>\<bar>" by (simp only: of_int_1_le_iff)
  then show ?thesis using q by (metis of_int_abs)
qed

text \<open>
  A whole number of magnitude at most \<open>2 ^ p\<close> is a floating-point number of \<open>p\<close>
  bits: rounding leaves it as it is.
\<close>

lemma fl_whole:
  assumes w: "whole q" and b: "\<bar>q\<bar> \<le> 2 ^ p" and p: "0 < p" "p < 1100"
  shows "fl p q = q"
proof (cases "q = 0")
  case True
  then show ?thesis by (simp add: fl_def)
next
  case False
  define a where "a = \<bar>q\<bar>"
  have a1: "1 \<le> a" unfolding a_def using whole_ge1[OF w False] .
  have "(2::rat) ^ p < 2 ^ 1100" using p by (intro power_strict_increasing) simp_all
  then have a2: "a < 2 ^ 1100" using b unfolding a_def by simp
  from binade_ge1[OF a1 a2] obtain k where k: "binade 1100 a = 2 ^ k" "2 ^ k \<le> a" "a < 2 * 2 ^ k"
    by blast
  obtain z where z: "a = of_int z"
    using w unfolding a_def whole_def by (metis of_int_abs)
  have "\<exists>m. a / (2 ^ k / 2 ^ (p - 1)) = of_int m"
  proof (cases "k \<le> p - 1")
    case True
    then have "(2::rat) ^ (p - 1) = 2 ^ k * 2 ^ (p - 1 - k)"
      by (simp flip: power_add)
    then have "a / (2 ^ k / 2 ^ (p - 1)) = of_int (z * 2 ^ (p - 1 - k))"
      using z by simp
    then show ?thesis by blast
  next
    case False
    then have "p \<le> k" using p by simp
    then have pk: "(2::rat) ^ p \<le> 2 ^ k" by (intro power_increasing) simp_all
    have ak: "a = 2 ^ p" using pk k(2) b unfolding a_def by linarith
    have "(2::rat) ^ k \<le> 2 ^ p" using k(2) unfolding ak .
    then have "k \<le> p" by simp
    with \<open>p \<le> k\<close> have kp: "k = p" by simp
    have "(2::rat) ^ p = 2 * 2 ^ (p - 1)" using p by (cases p) simp_all
    then have "a / (2 ^ k / 2 ^ (p - 1)) = of_int (2 ^ (p - 1))"
      using ak kp by simp
    then show ?thesis by blast
  qed
  then obtain m where m: "a / (2 ^ k / 2 ^ (p - 1)) = of_int m" by blast
  have ulp0: "(2::rat) ^ k / 2 ^ (p - 1) \<noteq> 0" by simp
  have "of_int m * (2 ^ k / 2 ^ (p - 1)) = a"
    using m ulp0 by (metis nonzero_divide_eq_eq)
  then have "fl p q = sgn q * a"
    using False k(1) m unfolding fl_def a_def[symmetric] Let_def
    by (simp only: if_False round_half_even_of_int mult.assoc)
  also have "\<dots> = q" unfolding a_def by (simp add: sgn_mult_abs)
  finally show ?thesis .
qed

lemma f64_whole: "whole q \<Longrightarrow> \<bar>q\<bar> \<le> 2 ^ 53 \<Longrightarrow> f64 q = q"
  unfolding f64_def by (rule fl_whole) simp_all

lemma f64_of_int: "\<bar>z\<bar> \<le> 2 ^ 53 \<Longrightarrow> f64 (of_int z) = of_int z"
proof (rule f64_whole)
  show "whole (of_int z)" by (simp add: whole_def)
  assume "\<bar>z\<bar> \<le> 2 ^ 53"
  then have "(of_int \<bar>z\<bar> :: rat) \<le> of_int (2 ^ 53)" by (simp only: of_int_le_iff)
  then show "\<bar>of_int z :: rat\<bar> \<le> 2 ^ 53" by simp
qed

lemma f64_numeral:
  "f64 0 = 0" "f64 1 = 1"
  "numeral n \<le> (2::int) ^ 53 \<Longrightarrow> f64 (numeral n) = numeral n"
  "numeral n \<le> (2::int) ^ 53 \<Longrightarrow> f64 (- numeral n) = - numeral n"
  using f64_of_int[of 0] f64_of_int[of 1] f64_of_int[of "numeral n"] f64_of_int[of "- numeral n"]
  by simp_all


section \<open>Properties of Scale\<close>

text \<open>
  C1. The claim: in single-int mode every keypoint is rescaled by the dimension ratio, so
  with \<open>size = 256\<close> on a \<open>512 \<times> 1024\<close> image the output is \<open>256 \<times> 512\<close> and the
  keypoint \<open>(256, 512)\<close> maps to \<open>(128, 256)\<close>. The code multiplies by the output
  dimensions instead: the output image is \<open>256 \<times> 512\<close>, but the keypoint becomes
  \<open>(256 * 256, 512 * 512)\<close>.
\<close>

theorem Scale_int_mode_multiplies_by_output_size:
  "map_sum id (\<lambda>(i, t). (width i, height i, t))
     (Scale_call \<lparr>Scale_size = SizeInt 256, Scale_interpolation = nearest\<rparr>
        (sample_image 512 1024) [(256, 512)])
   = Inr (256, 512, [(65536, 262144)])
   \<and> (65536, 262144) \<noteq> ((128, 256) :: keypoint)"
  by (simp add: Scale_call_def sample_image_def resize_def upd_x_def upd_y_def py_int_def
      f64_numeral)

section \<open>Properties of the crops\<close>

text \<open>
  C2. The claim: after the window's corner is subtracted, a coordinate beyond the cropped
  image's width or height is reset to 0. RandomCrop compares the re-based coordinate
  with \<open>x1 + tw\<close> and \<open>y1 + th\<close>, the window's far corner in the frame of the
  uncropped image: with a \<open>10 \<times> 10\<close> window drawn at \<open>(5, 0)\<close> in a \<open>20 \<times> 20\<close>
  image the keypoint \<open>(18, 3)\<close> becomes \<open>(13, 3)\<close>, beyond the width 10 of the cropped
  image, and is kept.
\<close>

theorem RandomCrop_keeps_keypoint_beyond_window:
  "map_sum id (\<lambda>(i, t). (width i, height i, t))
     (RandomCrop_call (RandomCrop_init (Pair 10 10) 0) (5, 0) (sample_image 20 20) [(18, 3)])
   = Inr (10, 10, [(13, 3)])
   \<and> (10 :: rat) < 13"
  by (simp add: RandomCrop_call_def RandomCrop_init_def sample_image_def crop_def
      upd_x_def upd_y_def clamp_negative_def f64_numeral)

text \<open>
  C4. The claim: an image whose size is already \<open>(tw, th)\<close> comes back unchanged with its
  keypoints. The code tests \<^verbatim>\<open>w == th and h == th\<close>: with the target size
  \<open>(th, tw) = (10, 20)\<close> a \<open>20 \<times> 10\<close> image is not recognised, the crop path runs with
  the only possible draw \<open>(0, 0)\<close>, and the keypoint \<open>(-3, 5)\<close> comes back as \<open>(0, 5)\<close>.
\<close>

theorem RandomCrop_same_size_changes_keypoints:
  "map_sum id snd
     (RandomCrop_call (RandomCrop_init (Pair 10 20) 0) (0, 0) (sample_image 20 10) [(-3, 5)])
   = Inr [(0, 5)]
   \<and> width (sample_image 20 10) = snd (RandomCrop_size (RandomCrop_init (Pair 10 20) 0))
   \<and> height (sample_image 20 10) = fst (RandomCrop_size (RandomCrop_init (Pair 10 20) 0))"
  by (simp add: RandomCrop_call_def RandomCrop_init_def sample_image_def crop_def
      upd_x_def upd_y_def clamp_negative_def f64_numeral)

text \<open>
  C5. The claim: with padding \<open>p > 0\<close> a keypoint \<open>(x, y)\<close> maps to
  \<open>(x + p - x1, y + p - y1)\<close>, the place of its pixel in the returned image. The code
  subtracts only \<open>(x1, y1)\<close>: with \<open>p = 2\<close>, a \<open>4 \<times> 4\<close> window drawn at \<open>(1, 1)\<close> and a
  \<open>4 \<times> 4\<close> image, the pixel of the keypoint \<open>(1, 1)\<close> (value 5) stands at \<open>(2, 2)\<close> in
  the returned image, and the returned keypoint is \<open>(0, 0)\<close>, where the image shows the
  zero border.
\<close>

theorem RandomCrop_padding_not_added_to_keypoints:
  "(case RandomCrop_call (RandomCrop_init (Pair 4 4) 2) (1, 1) (sample_image 4 4) [(1, 1)] of
      Inl e \<Rightarrow> False
    | Inr (i, t) \<Rightarrow>
        t = [(0, 0)] \<and> width i = 4 \<and> height i = 4 \<and> pixel i 2 2 0 = 5 \<and> pixel i 0 0 0 = 0)
   \<and> pixel (sample_image 4 4) 1 1 0 = 5"
  by (simp add: RandomCrop_call_def RandomCrop_init_def sample_image_def crop_def expand_def
      upd_x_def upd_y_def clamp_negative_def f64_numeral)

subsection \<open>The constructor of RandomCrop\<close>

lemma py_int_example: "py_int (5 / 2) = 2"
  unfolding py_int_def by (simp add: floor_eq_iff)

text \<open>
  C10. A number \<open>n\<close> given as the size becomes the pair \<open>(int(n), int(n))\<close>: for a whole
  number the transform is the one configured with the pair \<open>(n, n)\<close>, and every call
  returns the same; a fraction is truncated first (\<open>2.5\<close> gives \<open>(2, 2)\<close>).
\<close>

theorem RandomCrop_init_number:
  "RandomCrop_init (Number (of_int n)) p = RandomCrop_init (Pair n n) p
   \<and> RandomCrop_call (RandomCrop_init (Number (of_int n)) p) d img t
       = RandomCrop_call (RandomCrop_init (Pair n n) p) d img t
   \<and> RandomCrop_size (RandomCrop_init (Number q) p) = (py_int q, py_int q)
   \<and> RandomCrop_init (Number (5 / 2)) p = RandomCrop_init (Pair 2 2) p"
proof -
  have a: "RandomCrop_init (Number (of_int n)) p = RandomCrop_init (Pair n n) p"
    by (simp add: RandomCrop_init_def py_int_def)
  have c: "RandomCrop_size (RandomCrop_init (Number q) p) = (py_int q, py_int q)"
    by (simp add: RandomCrop_init_def)
  have d: "RandomCrop_init (Number (5 / 2)) p = RandomCrop_init (Pair 2 2) p"
    by (simp add: RandomCrop_init_def py_int_example)
  show ?thesis
    using a c d by simp
qed


section \<open>Properties of CropToTarget\<close>


lemma whole_of_int: "whole (of_int n)"
  by (simp add: whole_def)

lemma whole_diff: "whole a \<Longrightarrow> whole b \<Longrightarrow> whole (a - b)"
  unfolding whole_def by (metis floor_of_int of_int_diff)

lemma whole_add: "whole a \<Longrightarrow> whole b \<Longrightarrow> whole (a + b)"
  unfolding whole_def by (metis floor_of_int of_int_add)

lemma f64_diff:
  assumes "whole a" "whole b" "\<bar>a\<bar> + \<bar>b\<bar> \<le> 2 ^ 53"
  shows "f64 (a - b) = a - b"
proof (rule f64_whole)
  show "whole (a - b)" using assms(1,2) by (rule whole_diff)
  show "\<bar>a - b\<bar> \<le> 2 ^ 53" using assms(3) by linarith
qed

lemma f64_add:
  assumes "whole a" "whole b" "\<bar>a\<bar> + \<bar>b\<bar> \<le> 2 ^ 53"
  shows "f64 (a + b) = a + b"
proof (rule f64_whole)
  show "whole (a + b)" using assms(1,2) by (rule whole_add)
  show "\<bar>a + b\<bar> \<le> 2 ^ 53" using assms(3) by linarith
qed

lemma pow_51_53: "(2::rat) ^ 51 + 2 ^ 51 = 2 ^ 52" "(2::rat) ^ 51 + 2 ^ 52 \<le> 2 ^ 53"
  "(2::rat) ^ 52 \<le> 2 ^ 53" "(2::rat) ^ 51 \<le> 2 ^ 53"
  by simp_all

lemma padding_exact:
  assumes "\<bar>P\<bar> \<le> 2 ^ 51"
  shows "f64 (of_int P) = of_int P" "\<bar>of_int P :: rat\<bar> \<le> 2 ^ 51"
proof -
  have "(of_int \<bar>P\<bar> :: rat) \<le> of_int (2 ^ 51)" using assms by (simp only: of_int_le_iff)
  then show b: "\<bar>of_int P :: rat\<bar> \<le> 2 ^ 51" by simp
  show "f64 (of_int P) = of_int P"
    using b pow_51_53(4) by (intro f64_whole whole_of_int) linarith
qed

lemma pixel_padding:
  assumes a: "pixel_coord a" and P: "\<bar>P\<bar> \<le> 2 ^ 51"
  shows "f64 (a - of_int P) = a - of_int P" "f64 (a + of_int P) = a + of_int P"
    "whole (a - of_int P)" "whole (a + of_int P)"
    "\<bar>a - of_int P\<bar> \<le> 2 ^ 52" "\<bar>a + of_int P\<bar> \<le> 2 ^ 52"
proof -
  have w: "whole a" and b: "\<bar>a\<bar> \<le> 2 ^ 51" using a by (simp_all add: pixel_coord_def)
  note pb = padding_exact(2)[OF P]
  have s: "\<bar>a\<bar> + \<bar>of_int P :: rat\<bar> \<le> 2 ^ 52" using b pb pow_51_53(1) by linarith
  then have s': "\<bar>a\<bar> + \<bar>of_int P :: rat\<bar> \<le> 2 ^ 53" using pow_51_53(3) by linarith
  show "f64 (a - of_int P) = a - of_int P" using w whole_of_int s' by (rule f64_diff)
  show "f64 (a + of_int P) = a + of_int P" using w whole_of_int s' by (rule f64_add)
  show "whole (a - of_int P)" using w whole_of_int by (rule whole_diff)
  show "whole (a + of_int P)" using w whole_of_int by (rule whole_add)
  show "\<bar>a - of_int P\<bar> \<le> 2 ^ 52" using s by linarith
  show "\<bar>a + of_int P\<bar> \<le> 2 ^ 52" using s by linarith
qed

lemma pixel_rebase:
  assumes "pixel_coord x" "whole m" "\<bar>m\<bar> \<le> 2 ^ 52"
  shows "f64 (x - m) = x - m"
proof -
  have w: "whole x" and b: "\<bar>x\<bar> \<le> 2 ^ 51" using assms(1) by (simp_all add: pixel_coord_def)
  have "\<bar>x\<bar> + \<bar>m\<bar> \<le> 2 ^ 53" using b assms(3) pow_51_53(2) by linarith
  with w assms(2) show ?thesis by (rule f64_diff)
qed

lemma np_pixel:
  assumes "t \<noteq> []" "pixel_target t"
  shows "pixel_coord (fst (np_min t))" "pixel_coord (fst (np_max t))"
    "pixel_coord (snd (np_min t))" "pixel_coord (snd (np_max t))"
proof -
  have fin: "finite (fst ` set t)" "finite (snd ` set t)" by simp_all
  have ne: "fst ` set t \<noteq> {}" "snd ` set t \<noteq> {}" using assms(1) by simp_all
  have w1: "\<And>a. a \<in> fst ` set t \<Longrightarrow> pixel_coord a"
    and w2: "\<And>a. a \<in> snd ` set t \<Longrightarrow> pixel_coord a"
    using assms(2) by (auto simp: pixel_target_def list_all_iff)
  show "pixel_coord (fst (np_min t))" using Min_in[OF fin(1) ne(1)] w1 by (simp add: np_min_def)
  show "pixel_coord (fst (np_max t))" using Max_in[OF fin(1) ne(1)] w1 by (simp add: np_max_def)
  show "pixel_coord (snd (np_min t))" using Min_in[OF fin(2) ne(2)] w2 by (simp add: np_min_def)
  show "pixel_coord (snd (np_max t))" using Max_in[OF fin(2) ne(2)] w2 by (simp add: np_max_def)
qed

text \<open>The five updates of the target in \<^verbatim>\<open>CropToTarget.__call__\<close>, keypoint by keypoint.\<close>

lemma crop_target_map:
  "upd_y (\<lambda>y. if y > my then 0 else y)
     (upd_x (\<lambda>x. if x > mx then 0 else x)
        (clamp_negative (upd_y (\<lambda>y. f64 (y - ny)) (upd_x (\<lambda>x. f64 (x - nx)) t))))
   = map (\<lambda>(x, y).
            (let x' = f64 (x - nx); x'' = (if x' < 0 then 0 else x')
             in if mx < x'' then 0 else x'',
             let y' = f64 (y - ny); y'' = (if y' < 0 then 0 else y')
             in if my < y'' then 0 else y'')) t"
  by (induction t) (simp_all add: upd_x_def upd_y_def clamp_negative_def Let_def split_def)

lemma padded_box_eq:
  "padded_box self img t =
     (let p = f64 (of_int (CropToTarget_padding self));
          lo = (f64 (fst (np_min t) - p), f64 (snd (np_min t) - p));
          hi = (f64 (fst (np_max t) + p), f64 (snd (np_max t) + p));
          fits = (0 \<le> fst lo \<and> 0 \<le> snd lo \<and>
                  fst hi \<le> of_int (width img) \<and> snd hi \<le> of_int (height img))
      in (if fits then lo else np_min t, if fits then hi else np_max t))"
  unfolding padded_box_def Let_def fst_conv snd_conv de_Morgan_disj not_less
  by (rule if_split[THEN iffD2]) simp

lemma CropToTarget_call_box:
  assumes "t \<noteq> []" and pb: "padded_box self img t = (mn, mx)"
  shows "CropToTarget_call rnd self img t =
      (if of_int (width img) = fst mx \<and> of_int (height img) = snd mx then Inr (img, t)
       else Inr (crop img (rnd (fst mn), rnd (snd mn), rnd (fst mx), rnd (snd mx)),
                 map (\<lambda>(x, y).
                        (let x' = f64 (x - fst mn); x'' = (if x' < 0 then 0 else x')
                         in if fst mx < x'' then 0 else x'',
                         let y' = f64 (y - snd mn); y'' = (if y' < 0 then 0 else y')
                         in if snd mx < y'' then 0 else y'')) t))"
  unfolding CropToTarget_call_def pb crop_target_map[symmetric]
  using assms(1) by (simp only: if_False prod.case Let_def)

text \<open>
  The call in one equation: the box is \<open>(lo, hi)\<close>, the bounding box moved out by the
  padding on all four sides, when \<open>fits\<close>, and the bounding box itself otherwise.
\<close>

lemma CropToTarget_call_eq:
  assumes "t \<noteq> []"
  shows "CropToTarget_call rnd self img t =
     (let p = f64 (of_int (CropToTarget_padding self));
          lo = (f64 (fst (np_min t) - p), f64 (snd (np_min t) - p));
          hi = (f64 (fst (np_max t) + p), f64 (snd (np_max t) + p));
          fits = (0 \<le> fst lo \<and> 0 \<le> snd lo \<and>
                  fst hi \<le> of_int (width img) \<and> snd hi \<le> of_int (height img));
          mn = (if fits then lo else np_min t);
          mx = (if fits then hi else np_max t)
      in if of_int (width img) = fst mx \<and> of_int (height img) = snd mx then Inr (img, t)
         else Inr (crop img (rnd (fst mn), rnd (snd mn), rnd (fst mx), rnd (snd mx)),
                   map (\<lambda>(x, y).
                          (let x' = f64 (x - fst mn); x'' = (if x' < 0 then 0 else x')
                           in if fst mx < x'' then 0 else x'',
                           let y' = f64 (y - snd mn); y'' = (if y' < 0 then 0 else y')
                           in if snd mx < y'' then 0 else y'')) t))"
proof -
  obtain mn mx where pb: "padded_box self img t = (mn, mx)"
    by (cases "padded_box self img t")
  from pb have mn: "mn = fst (padded_box self img t)" and mx: "mx = snd (padded_box self img t)"
    by simp_all
  show ?thesis
    unfolding CropToTarget_call_box[OF assms pb]
    unfolding mn mx padded_box_eq unfolding Let_def fst_conv snd_conv ..
qed

text \<open>
  On a target in whole pixels the sums are exact, and the box is the one of the exact
  sums: moved out by \<open>q = p\<close> when the exact padded box lies within the image, and by
  \<open>q = 0\<close> otherwise.
\<close>

lemma padded_box_exact:
  assumes ne: "t \<noteq> []" and px: "pixel_target t" and P: "\<bar>CropToTarget_padding self\<bar> \<le> 2 ^ 51"
  shows "padded_box self img t =
     (let p = of_int (CropToTarget_padding self);
          fits = (0 \<le> fst (np_min t) - p \<and> 0 \<le> snd (np_min t) - p \<and>
                  fst (np_max t) + p \<le> of_int (width img) \<and>
                  snd (np_max t) + p \<le> of_int (height img));
          q = (if fits then p else 0)
      in ((fst (np_min t) - q, snd (np_min t) - q), (fst (np_max t) + q, snd (np_max t) + q)))"
proof -
  note np = np_pixel[OF ne px]
  note e0 = padding_exact(1)[OF P]
  note e = pixel_padding(1)[OF np(1) P] pixel_padding(1)[OF np(3) P]
    pixel_padding(2)[OF np(2) P] pixel_padding(2)[OF np(4) P]
  define fits where "fits \<longleftrightarrow>
      0 \<le> fst (np_min t) - of_int (CropToTarget_padding self) \<and>
      0 \<le> snd (np_min t) - of_int (CropToTarget_padding self) \<and>
      fst (np_max t) + of_int (CropToTarget_padding self) \<le> of_int (width img) \<and>
      snd (np_max t) + of_int (CropToTarget_padding self) \<le> of_int (height img)"
  show ?thesis
    unfolding padded_box_eq Let_def e0 e fst_conv snd_conv fits_def[symmetric]
    by (cases fits) simp_all
qed

lemma padded_box_pixel:
  assumes ne: "t \<noteq> []" and px: "pixel_target t" and P: "\<bar>CropToTarget_padding self\<bar> \<le> 2 ^ 51"
    and pb: "padded_box self img t = (mn, mx)"
  shows "whole (fst mn) \<and> whole (snd mn) \<and> whole (fst mx) \<and> whole (snd mx) \<and>
    \<bar>fst mn\<bar> \<le> 2 ^ 52 \<and> \<bar>snd mn\<bar> \<le> 2 ^ 52"
proof -
  note np = np_pixel[OF ne px]
  let ?p = "of_int (CropToTarget_padding self) :: rat"
  from pb padded_box_exact[OF ne px P, of img]
  consider (a) "mn = np_min t" "mx = np_max t"
    | (b) "mn = (fst (np_min t) - ?p, snd (np_min t) - ?p)"
          "mx = (fst (np_max t) + ?p, snd (np_max t) + ?p)"
    by (auto simp: Let_def split: if_splits)
  then show ?thesis
  proof cases
    case a
    have "\<bar>fst (np_min t)\<bar> \<le> 2 ^ 52" "\<bar>snd (np_min t)\<bar> \<le> 2 ^ 52"
      using np(1,3) pow_51_53(1) unfolding pixel_coord_def by linarith+
    then show ?thesis
      using np unfolding a pixel_coord_def by simp
  next
    case b
    show ?thesis
      unfolding b fst_conv snd_conv
      using pixel_padding(3,5)[OF np(1) P] pixel_padding(3,5)[OF np(3) P]
        pixel_padding(4)[OF np(2) P] pixel_padding(4)[OF np(4) P]
      by simp
  qed
qed

lemma CropToTarget_call_box_exact:
  assumes ne: "t \<noteq> []" and px: "pixel_target t" and P: "\<bar>CropToTarget_padding self\<bar> \<le> 2 ^ 51"
    and pb: "padded_box self img t = (mn, mx)"
  shows "CropToTarget_call rnd self img t =
      (if of_int (width img) = fst mx \<and> of_int (height img) = snd mx then Inr (img, t)
       else Inr (crop img (rnd (fst mn), rnd (snd mn), rnd (fst mx), rnd (snd mx)),
                 map (\<lambda>(x, y).
                        (let x' = x - fst mn; x'' = (if x' < 0 then 0 else x')
                         in if fst mx < x'' then 0 else x'',
                         let y' = y - snd mn; y'' = (if y' < 0 then 0 else y')
                         in if snd mx < y'' then 0 else y'')) t))"
proof -
  note pp = padded_box_pixel[OF ne px P pb]
  have reb: "f64 (x - fst mn) = x - fst mn" "f64 (y - snd mn) = y - snd mn"
    if "(x, y) \<in> set t" for x y
  proof -
    from that px have "pixel_coord x" "pixel_coord y"
      by (auto simp: pixel_target_def list_all_iff)
    then show "f64 (x - fst mn) = x - fst mn" "f64 (y - snd mn) = y - snd mn"
      using pp by (simp_all only: pixel_rebase)
  qed
  have m: "map (\<lambda>(x, y).
                (let x' = f64 (x - fst mn); x'' = (if x' < 0 then 0 else x')
                 in if fst mx < x'' then 0 else x'',
                 let y' = f64 (y - snd mn); y'' = (if y' < 0 then 0 else y')
                 in if snd mx < y'' then 0 else y'')) t
         = map (\<lambda>(x, y).
                (let x' = x - fst mn; x'' = (if x' < 0 then 0 else x')
                 in if fst mx < x'' then 0 else x'',
                 let y' = y - snd mn; y'' = (if y' < 0 then 0 else y')
                 in if snd mx < y'' then 0 else y'')) t"
    by (rule map_cong[OF refl]) (auto simp: reb)
  show ?thesis
    unfolding CropToTarget_call_box[OF ne pb] m ..
qed

lemma CropToTarget_call_exact:
  assumes ne: "t \<noteq> []" and px: "pixel_target t" and P: "\<bar>CropToTarget_padding self\<bar> \<le> 2 ^ 51"
  shows "CropToTarget_call rnd self img t =
     (let p = of_int (CropToTarget_padding self);
          fits = (0 \<le> fst (np_min t) - p \<and> 0 \<le> snd (np_min t) - p \<and>
                  fst (np_max t) + p \<le> of_int (width img) \<and>
                  snd (np_max t) + p \<le> of_int (height img));
          q = (if fits then p else 0);
          mn = (fst (np_min t) - q, snd (np_min t) - q);
          mx = (fst (np_max t) + q, snd (np_max t) + q)
      in if of_int (width img) = fst mx \<and> of_int (height img) = snd mx then Inr (img, t)
         else Inr (crop img (rnd (fst mn), rnd (snd mn), rnd (fst mx), rnd (snd mx)),
                   map (\<lambda>(x, y).
                          (let x' = x - fst mn; x'' = (if x' < 0 then 0 else x')
                           in if fst mx < x'' then 0 else x'',
                           let y' = y - snd mn; y'' = (if y' < 0 then 0 else y')
                           in if snd mx < y'' then 0 else y'')) t))"
proof -
  obtain mn mx where pb: "padded_box self img t = (mn, mx)"
    by (cases "padded_box self img t")
  from pb have mn: "mn = fst (padded_box self img t)" and mx: "mx = snd (padded_box self img t)"
    by simp_all
  show ?thesis
    unfolding CropToTarget_call_box_exact[OF ne px P pb]
    unfolding mn mx padded_box_exact[OF ne px P] unfolding Let_def fst_conv snd_conv ..
qed

subsection \<open>Examples\<close>

lemma np_min_max_example:
  "np_min [(5, 5), (50, 50)] = (5, 5)" "np_max [(5, 5), (50, 50)] = (50, 50)"
  by (simp_all add: np_min_def np_max_def)

lemma padded_box_example_10:
  "padded_box \<lparr>CropToTarget_padding = 10\<rparr> (sample_image 200 200) [(5, 5), (50, 50)]
     = ((5, 5), (50, 50))"
  by (simp add: padded_box_def np_min_max_example sample_image_def f64_numeral)

lemma padded_box_example_5:
  "padded_box \<lparr>CropToTarget_padding = 5\<rparr> (sample_image 200 200) [(5, 5), (50, 50)]
     = ((0, 0), (55, 55))"
  by (simp add: padded_box_def np_min_max_example sample_image_def f64_numeral)

lemma CropToTarget_example_10:
  "map_sum id (\<lambda>(i, t). (width i, height i, t))
     (CropToTarget_call round \<lparr>CropToTarget_padding = 10\<rparr> (sample_image 200 200)
        [(5, 5), (50, 50)])
   = Inr (45, 45, [(0, 0), (45, 45)])"
  unfolding CropToTarget_call_def padded_box_example_10
  by (simp add: crop_def upd_x_def upd_y_def clamp_negative_def sample_image_def f64_numeral)

lemma CropToTarget_example_5:
  "map_sum id (\<lambda>(i, t). (width i, height i, t))
     (CropToTarget_call round \<lparr>CropToTarget_padding = 5\<rparr> (sample_image 200 200)
        [(5, 5), (50, 50)])
   = Inr (55, 55, [(5, 5), (50, 50)])"
  unfolding CropToTarget_call_def padded_box_example_5
  by (simp add: crop_def upd_x_def upd_y_def clamp_negative_def sample_image_def f64_numeral)

lemma np_min_max_tie:
  "np_min [(128, 128), (128 + 1 / 2 ^ 45, 128)] = (128, 128)"
  "np_max [(128, 128), (128 + 1 / 2 ^ 45, 128)] = (128 + 1 / 2 ^ 45, 128)"
  by (simp_all add: np_min_def np_max_def)

lemma f64_tie:
  "f64 (128 + 1 / 2 ^ 45 + 128) = 256" "f64 (9007199254740993 / 35184372088832) = 256"
  by code_simp+

lemma padded_box_tie:
  "padded_box \<lparr>CropToTarget_padding = 128\<rparr> (sample_image 256 256)
     [(128, 128), (128 + 1 / 2 ^ 45, 128)] = ((0, 0), (256, 256))"
  unfolding padded_box_def np_min_max_tie Let_def fst_conv snd_conv
  by (simp add: sample_image_def f64_numeral f64_tie)

text \<open>
  C6. The bounding box of the keypoints is moved out by the padding \<open>p\<close> on all four
  sides exactly when the padded box lies within the image (\<open>0 \<le> min - p\<close> and
  \<open>max + p \<le> size\<close> on both axes), and is left as it is otherwise, with no partial
  padding; the image is cropped to that box and the keypoints are re-based on its
  minimum corner. The four sums are the binary64 sums of the code: on a target in whole
  pixels they are the exact sums, and a sum that is not a binary64 number is compared as
  rounded (\<open>128 + 2\<^sup>-\<^sup>4\<^sup>5 + 128\<close> rounds to 256 and fits a width of 256, so that the
  box is padded to the whole image, which is returned as it is). With \<open>p = 10\<close> around
  the box \<open>[(5, 5), (50, 50)]\<close> in a \<open>200 \<times> 200\<close> image the box stays and the image is
  cropped to \<open>45 \<times> 45\<close>; with \<open>p = 5\<close> the box becomes \<open>[(0, 0), (55, 55)]\<close> and the
  image is cropped to \<open>55 \<times> 55\<close>.
\<close>

theorem CropToTarget_padding_all_or_nothing:
  assumes "t \<noteq> []"
  shows
    "CropToTarget_call rnd self img t =
       (let p = f64 (of_int (CropToTarget_padding self));
            lo = (f64 (fst (np_min t) - p), f64 (snd (np_min t) - p));
            hi = (f64 (fst (np_max t) + p), f64 (snd (np_max t) + p));
            fits = (0 \<le> fst lo \<and> 0 \<le> snd lo \<and>
                    fst hi \<le> of_int (width img) \<and> snd hi \<le> of_int (height img));
            mn = (if fits then lo else np_min t);
            mx = (if fits then hi else np_max t)
        in if of_int (width img) = fst mx \<and> of_int (height img) = snd mx then Inr (img, t)
           else Inr (crop img (rnd (fst mn), rnd (snd mn), rnd (fst mx), rnd (snd mx)),
                     map (\<lambda>(x, y).
                            (let x' = f64 (x - fst mn); x'' = (if x' < 0 then 0 else x')
                             in if fst mx < x'' then 0 else x'',
                             let y' = f64 (y - snd mn); y'' = (if y' < 0 then 0 else y')
                             in if snd mx < y'' then 0 else y'')) t))
     \<and> (pixel_target t \<and> \<bar>CropToTarget_padding self\<bar> \<le> 2 ^ 51 \<longrightarrow>
          CropToTarget_call rnd self img t =
            (let p = of_int (CropToTarget_padding self);
                 fits = (0 \<le> fst (np_min t) - p \<and> 0 \<le> snd (np_min t) - p \<and>
                         fst (np_max t) + p \<le> of_int (width img) \<and>
                         snd (np_max t) + p \<le> of_int (height img));
                 q = (if fits then p else 0);
                 mn = (fst (np_min t) - q, snd (np_min t) - q);
                 mx = (fst (np_max t) + q, snd (np_max t) + q)
             in if of_int (width img) = fst mx \<and> of_int (height img) = snd mx then Inr (img, t)
                else Inr (crop img (rnd (fst mn), rnd (snd mn), rnd (fst mx), rnd (snd mx)),
                          map (\<lambda>(x, y).
                                 (let x' = x - fst mn; x'' = (if x' < 0 then 0 else x')
                                  in if fst mx < x'' then 0 else x'',
                                  let y' = y - snd mn; y'' = (if y' < 0 then 0 else y')
                                  in if snd mx < y'' then 0 else y'')) t)))
     \<and> map_sum id (\<lambda>(i, t). (width i, height i, t))
         (CropToTarget_call round \<lparr>CropToTarget_padding = 10\<rparr> (sample_image 200 200)
            [(5, 5), (50, 50)])
         = Inr (45, 45, [(0, 0), (45, 45)])
     \<and> map_sum id (\<lambda>(i, t). (width i, height i, t))
         (CropToTarget_call round \<lparr>CropToTarget_padding = 5\<rparr> (sample_image 200 200)
            [(5, 5), (50, 50)])
         = Inr (55, 55, [(5, 5), (50, 50)])
     \<and> CropToTarget_call round \<lparr>CropToTarget_padding = 128\<rparr> (sample_image 256 256)
         [(128, 128), (128 + 1 / 2 ^ 45, 128)]
         = Inr (sample_image 256 256, [(128, 128), (128 + 1 / 2 ^ 45, 128)])"
proof (intro conjI impI)
  show "CropToTarget_call rnd self img t =
       (let p = f64 (of_int (CropToTarget_padding self));
            lo = (f64 (fst (np_min t) - p), f64 (snd (np_min t) - p));
            hi = (f64 (fst (np_max t) + p), f64 (snd (np_max t) + p));
            fits = (0 \<le> fst lo \<and> 0 \<le> snd lo \<and>
                    fst hi \<le> of_int (width img) \<and> snd hi \<le> of_int (height img));
            mn = (if fits then lo else np_min t);
            mx = (if fits then hi else np_max t)
        in if of_int (width img) = fst mx \<and> of_int (height img) = snd mx then Inr (img, t)
           else Inr (crop img (rnd (fst mn), rnd (snd mn), rnd (fst mx), rnd (snd mx)),
                     map (\<lambda>(x, y).
                            (let x' = f64 (x - fst mn); x'' = (if x' < 0 then 0 else x')
                             in if fst mx < x'' then 0 else x'',
                             let y' = f64 (y - snd mn); y'' = (if y' < 0 then 0 else y')
                             in if snd mx < y'' then 0 else y'')) t))"
    using assms by (rule CropToTarget_call_eq)
next
  assume "pixel_target t \<and> \<bar>CropToTarget_padding self\<bar> \<le> 2 ^ 51"
  then have px: "pixel_target t" and P: "\<bar>CropToTarget_padding self\<bar> \<le> 2 ^ 51"
    by simp_all
  show "CropToTarget_call rnd self img t =
            (let p = of_int (CropToTarget_padding self);
                 fits = (0 \<le> fst (np_min t) - p \<and> 0 \<le> snd (np_min t) - p \<and>
                         fst (np_max t) + p \<le> of_int (width img) \<and>
                         snd (np_max t) + p \<le> of_int (height img));
                 q = (if fits then p else 0);
                 mn = (fst (np_min t) - q, snd (np_min t) - q);
                 mx = (fst (np_max t) + q, snd (np_max t) + q)
             in if of_int (width img) = fst mx \<and> of_int (height img) = snd mx then Inr (img, t)
                else Inr (crop img (rnd (fst mn), rnd (snd mn), rnd (fst mx), rnd (snd mx)),
                          map (\<lambda>(x, y).
                                 (let x' = x - fst mn; x'' = (if x' < 0 then 0 else x')
                                  in if fst mx < x'' then 0 else x'',
                                  let y' = y - snd mn; y'' = (if y' < 0 then 0 else y')
                                  in if snd mx < y'' then 0 else y'')) t))"
    using assms px P by (rule CropToTarget_call_exact)
next
  show "map_sum id (\<lambda>(i, t). (width i, height i, t))
         (CropToTarget_call round \<lparr>CropToTarget_padding = 10\<rparr> (sample_image 200 200)
            [(5, 5), (50, 50)])
         = Inr (45, 45, [(0, 0), (45, 45)])"
    by (rule CropToTarget_example_10)
next
  show "map_sum id (\<lambda>(i, t). (width i, height i, t))
         (CropToTarget_call round \<lparr>CropToTarget_padding = 5\<rparr> (sample_image 200 200)
            [(5, 5), (50, 50)])
         = Inr (55, 55, [(5, 5), (50, 50)])"
    by (rule CropToTarget_example_5)
next
  show "CropToTarget_call round \<lparr>CropToTarget_padding = 128\<rparr> (sample_image 256 256)
         [(128, 128), (128 + 1 / 2 ^ 45, 128)]
         = Inr (sample_image 256 256, [(128, 128), (128 + 1 / 2 ^ 45, 128)])"
    unfolding CropToTarget_call_def padded_box_tie by (simp add: sample_image_def)
qed

theorem CropToTarget_padding_all_or_nothing_witness:
  "[(5, 5), (50, 50)] \<noteq> ([] :: target)
   \<and> pixel_target [(5, 5), (50, 50)]
   \<and> \<bar>CropToTarget_padding \<lparr>CropToTarget_padding = 5\<rparr>\<bar> \<le> 2 ^ 51
   \<and> CropToTarget_call round \<lparr>CropToTarget_padding = 5\<rparr> (sample_image 200 200)
        [(5, 5), (50, 50)]
      = Inr (crop (sample_image 200 200) (0, 0, 55, 55), [(5, 5), (50, 50)])"
proof -
  have ne: "[(5, 5), (50, 50)] \<noteq> ([] :: target)"
    by simp
  have px: "pixel_target [(5, 5), (50, 50)]"
    by (simp add: pixel_target_def pixel_coord_def whole_def)
  have P: "\<bar>CropToTarget_padding \<lparr>CropToTarget_padding = 5\<rparr>\<bar> \<le> 2 ^ 51"
    by simp
  note exact = CropToTarget_padding_all_or_nothing [OF ne, of round
      "\<lparr>CropToTarget_padding = 5\<rparr>" "sample_image 200 200",
      THEN conjunct2, THEN conjunct1, THEN mp, OF conjI [OF px P]]
  have "CropToTarget_call round \<lparr>CropToTarget_padding = 5\<rparr> (sample_image 200 200)
        [(5, 5), (50, 50)]
      = Inr (crop (sample_image 200 200) (0, 0, 55, 55), [(5, 5), (50, 50)])"
    unfolding exact np_min_max_example by (simp add: sample_image_def)
  with ne px P show ?thesis by simp
qed

section \<open>Keypoints stay in the frame\<close>






section \<open>Properties of Normalize\<close>





text \<open>
  The model on the first channel of the usual configuration: with mean \<open>0.485\<close> and
  std \<open>0.229\<close> (the binary64 numbers nearest to them) the element that ToTensor makes
  of the byte 3 becomes \<open>- 4333827 / 2097152\<close>, about \<open>- 2.0665\<close>.
\<close>

lemma f32_normalize_example:
  "f32 (f32 (f32 (f32 3 / 255) - f32 (f64 (97 / 200))) / f32 (f64 (229 / 1000)))
     = - 4333827 / 2097152"
  by code_simp




section \<open>Properties of RandomHorizontalFlip\<close>









end
